theory Spec2Isabelle
  imports Main "HOL-Library.Word" "HOL-Library.Signed_Division"
begin

unbundle bit_operations_syntax

section \<open>The HD44780 LCD device of msim (src/device/dlcd.c)\<close>

text \<open>
  The device is a C struct \<open>lcd_data_t\<close> that \<open>lcd_write32\<close> mutates in place. The
  model passes the struct as a record and returns the updated record.

  Conventions of the embedding:
  \<^item> The C \<open>int\<close> fields (\<open>rows\<close>, \<open>cols\<close>, \<open>current_row\<close>, \<open>current_col\<close>,
    \<open>display_shift_offset\<close>) are HOL integers. Lemma \<open>write_sequence_small\<close> below
    shows that on every state reachable from construction they lie between \<open>-1\<close> and
    \<open>40\<close>, so nothing the code computes from them comes near the limits of a 32-bit
    \<open>int\<close>.
  \<^item> \<open>uint8_t\<close>, \<open>uint32_t\<close> and \<open>uint64_t\<close> are words of that width.
  \<^item> The C operator \<open>%\<close> truncates towards zero (\<open>smod\<close>) and traps on a zero
    divisor; an array access outside its bounds is undefined. Both are outcomes of
    type \<open>fault\<close> in the model, so that a theorem \<open>f x = Inr y\<close> also says that the
    code reaches neither.
  \<^item> \<open>lcd_print\<close> only reads the state and writes the frame to standard output. The
    model records whether it is called: the boolean returned beside the state.
\<close>

subsection \<open>Constants\<close>

definition REGISTER_DATA :: "64 word" where "REGISTER_DATA = 0"
definition REGISTER_CONTROL :: "64 word" where "REGISTER_CONTROL = 1"
definition REGISTER_LIMIT :: "64 word" where "REGISTER_LIMIT = 4"

definition LCD_MAX_ROWS :: int where "LCD_MAX_ROWS = 4"
definition LCD_MAX_COLS :: int where "LCD_MAX_COLS = 40"

definition LCD_CMD_CLEAR :: "8 word" where "LCD_CMD_CLEAR = 0x01"
definition LCD_CMD_HOME :: "8 word" where "LCD_CMD_HOME = 0x02"
definition LCD_SET_CURSOR_MASK :: "8 word" where "LCD_SET_CURSOR_MASK = 0x7F"
definition LCD_SET_CURSOR_CMD :: "8 word" where "LCD_SET_CURSOR_CMD = 0x80"
definition LCD_CMD_ENTRY_MODE_BASE :: "8 word" where "LCD_CMD_ENTRY_MODE_BASE = 0x04"
definition LCD_CMD_DISPLAY_CONTROL_BASE :: "8 word" where "LCD_CMD_DISPLAY_CONTROL_BASE = 0x08"
definition LCD_CMD_FUNCTION_SET_BASE :: "8 word" where "LCD_CMD_FUNCTION_SET_BASE = 0x20"
definition LCD_CMD_SHIFT_BASE :: "8 word" where "LCD_CMD_SHIFT_BASE = 0x10"

definition row_addr_map :: "8 word list" where
  "row_addr_map = [0x00, 0x40, 0x14, 0x54]"

subsection \<open>Data\<close>

text \<open>
  \<open>lcd_reg_t\<close> is a union of a 32-bit value with bit-fields. Only the four named
  fields are ever read; on the little-endian ABI that msim builds for, \<open>rs\<close>, \<open>rw\<close>
  and \<open>e\<close> are bits 0, 1 and 2 of the value. The padding bits are not modelled.
\<close>

record lcd_reg =
  rs :: bool
  rw :: bool
  e :: bool
  data :: "8 word"

record lcd_data =
  rows :: int
  cols :: int
  current_row :: int
  current_col :: int
  reg :: lcd_reg
  reg_prev :: lcd_reg
  buffer :: "8 word list"
  addr :: "64 word"
  display_on :: bool
  increment_mode :: bool
  display_shift_offset :: int
  multi_line_mode :: bool

datatype fault = Div_By_Zero | Out_Of_Bounds

datatype init_error =
  Cols_Exceed_Maximum | Rows_Exceed_Maximum | Address_Out_Of_Range | Registers_Exceed_Range

subsection \<open>C primitives\<close>

text \<open>\<open>a % b\<close> on \<open>int\<close>.\<close>

definition c_rem :: "int \<Rightarrow> int \<Rightarrow> fault + int" where
  "c_rem a b = (if b = 0 then Inl Div_By_Zero else Inr (a smod b))"

text \<open>\<open>memset(buf, 0, n)\<close>, where \<open>n\<close> is an \<open>int\<close> converted to \<open>size_t\<close>.\<close>

definition memset_zero :: "8 word list \<Rightarrow> int \<Rightarrow> fault + 8 word list" where
  "memset_zero buf n =
     (if 0 \<le> n \<and> nat n \<le> length buf
      then Inr (replicate (nat n) 0 @ drop (nat n) buf)
      else Inl Out_Of_Bounds)"

subsection \<open>Construction\<close>

text \<open>
  \<open>dlcd_init\<close> reads three numbers from the configuration line with \<open>parm_uint\<close>:
  the columns and rows into \<open>uint\<close> variables, the address into a \<open>uint64_t\<close>. The
  parser, \<open>phys_range\<close> and \<open>safe_malloc\<close> are not part of this file: the parsed
  numbers and the address predicate are parameters, and so are the contents of the
  two register snapshots, which \<open>dlcd_init\<close> never initialises.
\<close>

definition dlcd_init ::
  "(64 word \<Rightarrow> bool) \<Rightarrow> 32 word \<Rightarrow> 32 word \<Rightarrow> 64 word \<Rightarrow> lcd_reg \<Rightarrow> lcd_reg
     \<Rightarrow> init_error + lcd_data" where
  "dlcd_init phys_range cols_p rows_p addr_p reg0 reg_prev0 =
     (if uint cols_p > LCD_MAX_COLS then Inl Cols_Exceed_Maximum
      else if uint rows_p > LCD_MAX_ROWS then Inl Rows_Exceed_Maximum
      else if \<not> phys_range addr_p then Inl Address_Out_Of_Range
      else if \<not> phys_range (addr_p + REGISTER_LIMIT) then Inl Registers_Exceed_Range
      else Inr \<lparr> rows = uint rows_p, cols = uint cols_p,
                 current_row = 0, current_col = 0,
                 reg = reg0, reg_prev = reg_prev0,
                 buffer = replicate (unat rows_p * unat cols_p) 0,
                 addr = addr_p,
                 display_on = False, increment_mode = True,
                 display_shift_offset = 0, multi_line_mode = False \<rparr>)"

subsection \<open>Address translation\<close>

text \<open>
  The loop of \<open>ddram_addr_to_position\<close>, from index \<open>i\<close> on. The result is
  \<open>Some (row, col)\<close> where the C function returns true and sets both out-parameters,
  and \<open>None\<close> where it returns false.
\<close>

function ddram_scan :: "lcd_data \<Rightarrow> 8 word \<Rightarrow> int \<Rightarrow> fault + (int \<times> int) option" where
  "ddram_scan d a i =
     (if i < rows d then
        (if 0 \<le> i \<and> nat i < length row_addr_map then
           (let base = row_addr_map ! nat i in
            if uint a \<ge> uint base \<and> uint a < uint base + LCD_MAX_COLS then
              (let col = uint a - uint base in
               Inr (Some (i, if col \<ge> cols d then cols d - 1 else col)))
            else ddram_scan d a (i + 1))
         else Inl Out_Of_Bounds)
      else Inr None)"
  by pat_completeness auto
termination
  by (relation "measure (\<lambda>(d, a, i). nat (rows d - i))") auto

declare ddram_scan.simps [simp del]

definition ddram_addr_to_position :: "lcd_data \<Rightarrow> 8 word \<Rightarrow> fault + (int \<times> int) option" where
  "ddram_addr_to_position d a = ddram_scan d a 0"

definition lcd_set_cursor :: "lcd_data \<Rightarrow> 8 word \<Rightarrow> fault + lcd_data" where
  "lcd_set_cursor d a =
     (case ddram_addr_to_position d a of
        Inl f \<Rightarrow> Inl f
      | Inr None \<Rightarrow> Inr d
      | Inr (Some (row, col)) \<Rightarrow> Inr (d\<lparr>current_row := row, current_col := col\<rparr>))"

subsection \<open>Cursor movement\<close>

definition lcd_advance_cursor :: "lcd_data \<Rightarrow> fault + lcd_data" where
  "lcd_advance_cursor lcd =
     (if increment_mode lcd then
        (let lcd1 = lcd\<lparr>current_col := current_col lcd + 1\<rparr> in
         if \<not> multi_line_mode lcd1 then
           (if current_col lcd1 \<ge> cols lcd1 then Inr (lcd1\<lparr>current_col := 0\<rparr>)
            else Inr lcd1)
         else
           (if current_col lcd1 \<ge> cols lcd1 then
              (case c_rem (current_row lcd1 + 1) (rows lcd1) of
                 Inl f \<Rightarrow> Inl f
               | Inr r \<Rightarrow> Inr (lcd1\<lparr>current_col := 0, current_row := r\<rparr>))
            else Inr lcd1))
      else
        (let lcd1 = lcd\<lparr>current_col := current_col lcd - 1\<rparr> in
         if current_col lcd1 < 0 then
           (if \<not> multi_line_mode lcd1 then Inr (lcd1\<lparr>current_col := cols lcd1 - 1\<rparr>)
            else
              (case c_rem (current_row lcd1 - 1 + rows lcd1) (rows lcd1) of
                 Inl f \<Rightarrow> Inl f
               | Inr r \<Rightarrow> Inr (lcd1\<lparr>current_col := cols lcd1 - 1, current_row := r\<rparr>)))
         else Inr lcd1))"

subsection \<open>Command handlers\<close>

definition lcd_handle_clear_command :: "lcd_data \<Rightarrow> fault + lcd_data" where
  "lcd_handle_clear_command lcd =
     (case memset_zero (buffer lcd) (rows lcd * cols lcd) of
        Inl f \<Rightarrow> Inl f
      | Inr buf \<Rightarrow>
          Inr (lcd\<lparr>buffer := buf, current_row := 0, current_col := 0,
                   display_shift_offset := 0\<rparr>))"

definition lcd_handle_home_command :: "lcd_data \<Rightarrow> lcd_data" where
  "lcd_handle_home_command lcd =
     lcd\<lparr>current_row := 0, current_col := 0, display_shift_offset := 0\<rparr>"

definition lcd_handle_entry_mode_command :: "lcd_data \<Rightarrow> 8 word \<Rightarrow> lcd_data" where
  "lcd_handle_entry_mode_command lcd cmd = lcd\<lparr>increment_mode := (cmd AND 0x02 \<noteq> 0)\<rparr>"

definition lcd_handle_display_control_command :: "lcd_data \<Rightarrow> 8 word \<Rightarrow> lcd_data" where
  "lcd_handle_display_control_command lcd cmd = lcd\<lparr>display_on := (cmd AND 0x04 \<noteq> 0)\<rparr>"

definition lcd_handle_function_set_command :: "lcd_data \<Rightarrow> 8 word \<Rightarrow> lcd_data" where
  "lcd_handle_function_set_command lcd cmd = lcd\<lparr>multi_line_mode := (cmd AND 0x08 \<noteq> 0)\<rparr>"

definition lcd_handle_shift_command :: "lcd_data \<Rightarrow> 8 word \<Rightarrow> fault + lcd_data" where
  "lcd_handle_shift_command lcd cmd =
     (let shift_display = (cmd AND 0x08 \<noteq> 0);
          shift_right = (cmd AND 0x04 \<noteq> 0)
      in
      if shift_display then
        (let lcd1 = (if shift_right
                     then lcd\<lparr>display_shift_offset := display_shift_offset lcd + 1\<rparr>
                     else lcd\<lparr>display_shift_offset := display_shift_offset lcd - 1\<rparr>);
             lcd2 = (if display_shift_offset lcd1 < - cols lcd1
                     then lcd1\<lparr>display_shift_offset := - cols lcd1\<rparr> else lcd1);
             lcd3 = (if display_shift_offset lcd2 > cols lcd2
                     then lcd2\<lparr>display_shift_offset := cols lcd2\<rparr> else lcd2)
         in Inr lcd3)
      else if shift_right then
        (let lcd1 = lcd\<lparr>current_col := current_col lcd + 1\<rparr> in
         if current_col lcd1 \<ge> cols lcd1 then
           (case c_rem (current_row lcd1 + 1) (rows lcd1) of
              Inl f \<Rightarrow> Inl f
            | Inr r \<Rightarrow> Inr (lcd1\<lparr>current_col := 0, current_row := r\<rparr>))
         else Inr lcd1)
      else
        (let lcd1 = lcd\<lparr>current_col := current_col lcd - 1\<rparr> in
         if current_col lcd1 < 0 then
           (case c_rem (current_row lcd1 - 1 + rows lcd1) (rows lcd1) of
              Inl f \<Rightarrow> Inl f
            | Inr r \<Rightarrow> Inr (lcd1\<lparr>current_col := cols lcd1 - 1, current_row := r\<rparr>))
         else Inr lcd1))"

definition lcd_handle_set_cursor_command :: "lcd_data \<Rightarrow> 8 word \<Rightarrow> fault + lcd_data" where
  "lcd_handle_set_cursor_command lcd cmd =
     (let a = cmd AND LCD_SET_CURSOR_MASK in
      if \<not> multi_line_mode lcd then
        (case ddram_addr_to_position lcd a of
           Inl f \<Rightarrow> Inl f
         | Inr None \<Rightarrow> Inr lcd
         | Inr (Some (row, col)) \<Rightarrow> Inr (lcd\<lparr>current_row := 0, current_col := col\<rparr>))
      else lcd_set_cursor lcd a)"

subsection \<open>Dispatch\<close>

text \<open>
  The boolean of \<open>lcd_handle_command_write\<close> and \<open>lcd_handle_data_write\<close> is the
  value the C functions return (\<open>display_updated\<close>).
\<close>

definition lcd_handle_command_write :: "lcd_data \<Rightarrow> fault + (bool \<times> lcd_data)" where
  "lcd_handle_command_write lcd =
     (if rw (reg lcd) then Inr (False, lcd)
      else
        (let cmd = data (reg lcd) in
         if cmd = LCD_CMD_CLEAR then
           (case lcd_handle_clear_command lcd of
              Inl f \<Rightarrow> Inl f | Inr lcd' \<Rightarrow> Inr (True, lcd'))
         else if cmd = LCD_CMD_HOME then
           Inr (False, lcd_handle_home_command lcd)
         else if cmd AND 0xFC = LCD_CMD_ENTRY_MODE_BASE then
           Inr (False, lcd_handle_entry_mode_command lcd cmd)
         else if cmd AND 0xF8 = LCD_CMD_DISPLAY_CONTROL_BASE then
           Inr (True, lcd_handle_display_control_command lcd cmd)
         else if cmd AND 0xE0 = LCD_CMD_FUNCTION_SET_BASE then
           Inr (True, lcd_handle_function_set_command lcd cmd)
         else if cmd AND 0xFC = LCD_CMD_SHIFT_BASE then
           (case lcd_handle_shift_command lcd cmd of
              Inl f \<Rightarrow> Inl f | Inr lcd' \<Rightarrow> Inr (True, lcd'))
         else if cmd AND LCD_SET_CURSOR_CMD \<noteq> 0 then
           (case lcd_handle_set_cursor_command lcd cmd of
              Inl f \<Rightarrow> Inl f | Inr lcd' \<Rightarrow> Inr (False, lcd'))
         else Inr (False, lcd)))"

definition lcd_handle_data_write :: "lcd_data \<Rightarrow> fault + (bool \<times> lcd_data)" where
  "lcd_handle_data_write lcd =
     (if rw (reg lcd) then Inr (False, lcd)
      else if current_col lcd < cols lcd then
        (let idx = current_row lcd * cols lcd + current_col lcd in
         if 0 \<le> idx \<and> nat idx < length (buffer lcd) then
           (case lcd_advance_cursor (lcd\<lparr>buffer := (buffer lcd)[nat idx := data (reg lcd)]\<rparr>) of
              Inl f \<Rightarrow> Inl f | Inr lcd' \<Rightarrow> Inr (True, lcd'))
         else Inl Out_Of_Bounds)
      else Inr (False, lcd))"

text \<open>The boolean of the next two functions says whether \<open>lcd_print\<close> was called.\<close>

definition lcd_execute_command :: "lcd_data \<Rightarrow> fault + (bool \<times> lcd_data)" where
  "lcd_execute_command lcd =
     (if e (reg_prev lcd) \<and> \<not> e (reg lcd) then
        (if rs (reg lcd) then lcd_handle_data_write lcd
         else lcd_handle_command_write lcd)
      else Inr (False, lcd))"

definition lcd_write32 :: "lcd_data \<Rightarrow> 64 word \<Rightarrow> 32 word \<Rightarrow> fault + (bool \<times> lcd_data)" where
  "lcd_write32 dev a val =
     (let off = a - addr dev in
      if off = REGISTER_DATA then
        Inr (False, dev\<lparr>reg := (reg dev)\<lparr>data := ucast val\<rparr>\<rparr>)
      else if off = REGISTER_CONTROL then
        lcd_execute_command
          (dev\<lparr>reg_prev := reg dev,
               reg := (reg dev)\<lparr>rs := bit val 0, rw := bit val 1, e := bit val 2\<rparr>\<rparr>)
      else Inr (False, dev))"

subsection \<open>Sequences of register writes\<close>

text \<open>
  The simulator calls \<open>lcd_write32\<close> once for every store of the guest into the
  register block. \<open>write_sequence\<close> runs the stores of a list in order and stops at
  the first fault.
\<close>

fun write_sequence :: "lcd_data \<Rightarrow> (64 word \<times> 32 word) list \<Rightarrow> fault + lcd_data" where
  "write_sequence dev [] = Inr dev"
| "write_sequence dev ((a, val) # ws) =
     (case lcd_write32 dev a val of
        Inl f \<Rightarrow> Inl f
      | Inr (printed, dev') \<Rightarrow> write_sequence dev' ws)"

subsection \<open>Properties of states\<close>

text \<open>
  What holds of every state that construction and register writes can produce, for
  every geometry that \<open>dlcd_init\<close> accepts (a geometry with no rows or no columns
  included, where the cursor column can be \<open>-1\<close>).
\<close>

definition lcd_wf :: "lcd_data \<Rightarrow> bool" where
  "lcd_wf s \<longleftrightarrow>
     0 \<le> rows s \<and> rows s \<le> 4 \<and> 0 \<le> cols s \<and> cols s \<le> 40 \<and>
     length (buffer s) = nat (rows s * cols s) \<and>
     display_shift_offset s = 0 \<and>
     0 \<le> current_row s \<and> current_row s < max 1 (rows s) \<and>
     - 1 \<le> current_col s \<and> current_col s < max 1 (cols s) \<and>
     (0 \<le> current_col s \<or> cols s = 0)"

text \<open>
  Address \<open>a\<close> lies in the DDRAM range of row \<open>i\<close>, and in the range of one of the
  rows the device is configured with.
\<close>

definition row_matches :: "8 word \<Rightarrow> nat \<Rightarrow> bool" where
  "row_matches a i \<longleftrightarrow>
     uint (row_addr_map ! i) \<le> uint a \<and> uint a < uint (row_addr_map ! i) + LCD_MAX_COLS"

definition addr_in_configured_row :: "lcd_data \<Rightarrow> 8 word \<Rightarrow> bool" where
  "addr_in_configured_row d a \<longleftrightarrow> (\<exists>i < nat (rows d). row_matches a i)"

subsection \<open>Example configuration\<close>

text \<open>
  A host with 36-bit physical addresses, and a register snapshot with all bits clear,
  for the concrete runs below.
\<close>

definition phys_range_36 :: "64 word \<Rightarrow> bool" where
  "phys_range_36 a \<longleftrightarrow> a < 2 ^ 36"

definition reg_idle :: lcd_reg where
  "reg_idle = \<lparr>rs = False, rw = False, e = False, data = 0\<rparr>"

text \<open>
  The states that \<open>dlcd_init\<close> builds for 4 columns and 2 rows, and for 4 columns and
  no row, at address \<open>0x1000\<close> (lemmas \<open>init_4x2\<close> and \<open>init_4x0\<close>).
\<close>

definition lcd_4x2 :: lcd_data where
  "lcd_4x2 = \<lparr> rows = 2, cols = 4, current_row = 0, current_col = 0,
               reg = reg_idle, reg_prev = reg_idle,
               buffer = replicate 8 0, addr = 0x1000,
               display_on = False, increment_mode = True,
               display_shift_offset = 0, multi_line_mode = False \<rparr>"

definition lcd_4x0 :: lcd_data where
  "lcd_4x0 = \<lparr> rows = 0, cols = 4, current_row = 0, current_col = 0,
               reg = reg_idle, reg_prev = reg_idle,
               buffer = [], addr = 0x1000,
               display_on = False, increment_mode = True,
               display_shift_offset = 0, multi_line_mode = False \<rparr>"

text \<open>
  The 4-by-2 device after multi-line mode was switched on, the cursor was sent to row
  1, multi-line mode was switched off again, and command byte \<open>0xA8\<close> was latched with
  enable high (lemma \<open>run_to_row_1\<close>).
\<close>

definition lcd_4x2_on_row_1 :: lcd_data where
  "lcd_4x2_on_row_1 =
     lcd_4x2\<lparr>reg := \<lparr>rs = False, rw = False, e = True, data = 0xA8\<rparr>,
             reg_prev := \<lparr>rs = False, rw = False, e = False, data = 0xA8\<rparr>,
             current_row := 1\<rparr>"

section \<open>Invariants of construction and register writes\<close>

lemmas lcd_consts =
  REGISTER_DATA_def REGISTER_CONTROL_def REGISTER_LIMIT_def LCD_MAX_ROWS_def LCD_MAX_COLS_def
  LCD_CMD_CLEAR_def LCD_CMD_HOME_def LCD_SET_CURSOR_MASK_def LCD_SET_CURSOR_CMD_def
  LCD_CMD_ENTRY_MODE_BASE_def LCD_CMD_DISPLAY_CONTROL_BASE_def LCD_CMD_FUNCTION_SET_BASE_def
  LCD_CMD_SHIFT_BASE_def

subsection \<open>Well-formedness is preserved\<close>

lemma ddram_scan_Some:
  "ddram_scan d a i = Inr (Some (r, c)) \<Longrightarrow> 0 \<le> i \<Longrightarrow> 0 \<le> cols d \<Longrightarrow>
     0 \<le> r \<and> r < rows d \<and> - 1 \<le> c \<and> c < max 1 (cols d) \<and> (0 \<le> c \<or> cols d = 0)"
proof (induction d a i rule: ddram_scan.induct)
  case (1 d a i)
  from "1.prems"(1) show ?case
    apply (subst (asm) ddram_scan.simps)
    apply (simp split: if_splits add: Let_def)
    using 1 apply auto
    done
qed

lemma ddram_scan_no_fault:
  "0 \<le> i \<Longrightarrow> rows d \<le> 4 \<Longrightarrow> \<exists>r. ddram_scan d a i = Inr r"
proof (induction d a i rule: ddram_scan.induct)
  case (1 d a i)
  show ?case
    apply (subst ddram_scan.simps)
    using 1 apply (auto simp: Let_def row_addr_map_def)
    done
qed

lemma c_rem_range:
  "0 \<le> x \<Longrightarrow> 1 \<le> y \<Longrightarrow> \<exists>r. c_rem x y = Inr r \<and> 0 \<le> r \<and> r < y \<and> r = x mod y"
  by (simp add: c_rem_def smod_int_alt_def sgn_if)

lemma advance_wf:
  "lcd_wf s \<Longrightarrow> 0 \<le> current_col s \<Longrightarrow> current_col s < cols s \<Longrightarrow> lcd_advance_cursor s = Inr s'
     \<Longrightarrow> lcd_wf s' \<and> rows s' = rows s \<and> cols s' = cols s \<and> addr s' = addr s"
  by (auto simp: lcd_advance_cursor_def lcd_wf_def Let_def c_rem_def smod_int_alt_def sgn_if
      split: if_splits sum.splits)

lemma advance_no_fault:
  "lcd_wf s \<Longrightarrow> 1 \<le> rows s \<Longrightarrow> \<exists>s'. lcd_advance_cursor s = Inr s'"
  by (auto simp: lcd_advance_cursor_def lcd_wf_def Let_def c_rem_def split: if_splits sum.splits)

lemma shift_mask_bits:
  fixes cmd :: "8 word"
  assumes "cmd AND 0xFC = 0x10"
  shows "cmd AND 0x08 = 0" and "cmd AND 0x04 = 0"
proof -
  have "cmd AND 0x08 = (cmd AND 0xFC) AND 0x08" by (simp add: and.assoc)
  then show "cmd AND 0x08 = 0" using assms by simp
  have "cmd AND 0x04 = (cmd AND 0xFC) AND 0x04" by (simp add: and.assoc)
  then show "cmd AND 0x04 = 0" using assms by simp
qed

lemma clear_wf:
  "lcd_wf s \<Longrightarrow> lcd_handle_clear_command s = Inr s'
     \<Longrightarrow> lcd_wf s' \<and> rows s' = rows s \<and> cols s' = cols s \<and> addr s' = addr s"
  by (auto simp: lcd_handle_clear_command_def memset_zero_def lcd_wf_def split: if_splits sum.splits)

lemma shift_wf:
  "lcd_wf s \<Longrightarrow> cmd AND 0xFC = 0x10 \<Longrightarrow> lcd_handle_shift_command s cmd = Inr s'
     \<Longrightarrow> lcd_wf s' \<and> rows s' = rows s \<and> cols s' = cols s \<and> addr s' = addr s"
  by (auto simp: lcd_handle_shift_command_def shift_mask_bits lcd_wf_def Let_def c_rem_def
      smod_int_alt_def sgn_if split: if_splits sum.splits)

lemma set_cursor_wf:
  assumes "lcd_wf s" and "lcd_handle_set_cursor_command s cmd = Inr s'"
  shows "lcd_wf s' \<and> rows s' = rows s \<and> cols s' = cols s \<and> addr s' = addr s"
proof (cases "ddram_scan s (cmd AND LCD_SET_CURSOR_MASK) 0")
  case (Inl f)
  with assms(2) show ?thesis
    by (simp add: lcd_handle_set_cursor_command_def lcd_set_cursor_def
        ddram_addr_to_position_def Let_def split: if_splits)
next
  case (Inr res)
  show ?thesis
  proof (cases res)
    case None
    with Inr assms show ?thesis
      by (simp add: lcd_handle_set_cursor_command_def lcd_set_cursor_def
          ddram_addr_to_position_def Let_def split: if_splits)
  next
    case (Some rc)
    obtain r c where rc: "rc = (r, c)" by (cases rc)
    from assms(1) have "0 \<le> cols s" by (simp add: lcd_wf_def)
    with Inr Some rc ddram_scan_Some [of s "cmd AND LCD_SET_CURSOR_MASK" 0 r c]
    have pos: "0 \<le> r" "r < rows s" "- 1 \<le> c" "c < max 1 (cols s)" "0 \<le> c \<or> cols s = 0"
      by simp_all
    from assms Inr Some rc pos show ?thesis
      by (auto simp: lcd_handle_set_cursor_command_def lcd_set_cursor_def
          ddram_addr_to_position_def Let_def lcd_wf_def split: if_splits)
  qed
qed

lemma home_wf:
  "lcd_wf s \<Longrightarrow> lcd_wf (lcd_handle_home_command s)"
  by (simp add: lcd_handle_home_command_def lcd_wf_def)

lemma entry_mode_wf:
  "lcd_wf s \<Longrightarrow> lcd_wf (lcd_handle_entry_mode_command s cmd)"
  by (simp add: lcd_handle_entry_mode_command_def lcd_wf_def)

lemma display_control_wf:
  "lcd_wf s \<Longrightarrow> lcd_wf (lcd_handle_display_control_command s cmd)"
  by (simp add: lcd_handle_display_control_command_def lcd_wf_def)

lemma function_set_wf:
  "lcd_wf s \<Longrightarrow> lcd_wf (lcd_handle_function_set_command s cmd)"
  by (simp add: lcd_handle_function_set_command_def lcd_wf_def)

lemma simple_handlers_geometry:
  "rows (lcd_handle_home_command s) = rows s"
  "cols (lcd_handle_home_command s) = cols s"
  "addr (lcd_handle_home_command s) = addr s"
  "rows (lcd_handle_entry_mode_command s cmd) = rows s"
  "cols (lcd_handle_entry_mode_command s cmd) = cols s"
  "addr (lcd_handle_entry_mode_command s cmd) = addr s"
  "rows (lcd_handle_display_control_command s cmd) = rows s"
  "cols (lcd_handle_display_control_command s cmd) = cols s"
  "addr (lcd_handle_display_control_command s cmd) = addr s"
  "rows (lcd_handle_function_set_command s cmd) = rows s"
  "cols (lcd_handle_function_set_command s cmd) = cols s"
  "addr (lcd_handle_function_set_command s cmd) = addr s"
  by (simp_all add: lcd_handle_home_command_def lcd_handle_entry_mode_command_def
      lcd_handle_display_control_command_def lcd_handle_function_set_command_def)

lemma command_write_wf:
  assumes "lcd_wf s" and "lcd_handle_command_write s = Inr (p, s')"
  shows "lcd_wf s' \<and> rows s' = rows s \<and> cols s' = cols s \<and> addr s' = addr s"
proof -
  let ?cmd = "data (reg s)"
  consider (rd) "rw (reg s)"
    | (c_clear) "\<not> rw (reg s)" "?cmd = LCD_CMD_CLEAR"
    | (c_home) "\<not> rw (reg s)" "?cmd \<noteq> LCD_CMD_CLEAR" "?cmd = LCD_CMD_HOME"
    | (c_entry) "\<not> rw (reg s)" "?cmd \<noteq> LCD_CMD_CLEAR" "?cmd \<noteq> LCD_CMD_HOME"
        "?cmd AND 0xFC = LCD_CMD_ENTRY_MODE_BASE"
    | (c_display) "\<not> rw (reg s)" "?cmd \<noteq> LCD_CMD_CLEAR" "?cmd \<noteq> LCD_CMD_HOME"
        "?cmd AND 0xFC \<noteq> LCD_CMD_ENTRY_MODE_BASE" "?cmd AND 0xF8 = LCD_CMD_DISPLAY_CONTROL_BASE"
    | (c_function) "\<not> rw (reg s)" "?cmd \<noteq> LCD_CMD_CLEAR" "?cmd \<noteq> LCD_CMD_HOME"
        "?cmd AND 0xFC \<noteq> LCD_CMD_ENTRY_MODE_BASE" "?cmd AND 0xF8 \<noteq> LCD_CMD_DISPLAY_CONTROL_BASE"
        "?cmd AND 0xE0 = LCD_CMD_FUNCTION_SET_BASE"
    | (c_shift) "\<not> rw (reg s)" "?cmd \<noteq> LCD_CMD_CLEAR" "?cmd \<noteq> LCD_CMD_HOME"
        "?cmd AND 0xFC \<noteq> LCD_CMD_ENTRY_MODE_BASE" "?cmd AND 0xF8 \<noteq> LCD_CMD_DISPLAY_CONTROL_BASE"
        "?cmd AND 0xE0 \<noteq> LCD_CMD_FUNCTION_SET_BASE" "?cmd AND 0xFC = LCD_CMD_SHIFT_BASE"
    | (c_setc) "\<not> rw (reg s)" "?cmd \<noteq> LCD_CMD_CLEAR" "?cmd \<noteq> LCD_CMD_HOME"
        "?cmd AND 0xFC \<noteq> LCD_CMD_ENTRY_MODE_BASE" "?cmd AND 0xF8 \<noteq> LCD_CMD_DISPLAY_CONTROL_BASE"
        "?cmd AND 0xE0 \<noteq> LCD_CMD_FUNCTION_SET_BASE" "?cmd AND 0xFC \<noteq> LCD_CMD_SHIFT_BASE"
        "?cmd AND LCD_SET_CURSOR_CMD \<noteq> 0"
    | (c_other) "\<not> rw (reg s)" "?cmd \<noteq> LCD_CMD_CLEAR" "?cmd \<noteq> LCD_CMD_HOME"
        "?cmd AND 0xFC \<noteq> LCD_CMD_ENTRY_MODE_BASE" "?cmd AND 0xF8 \<noteq> LCD_CMD_DISPLAY_CONTROL_BASE"
        "?cmd AND 0xE0 \<noteq> LCD_CMD_FUNCTION_SET_BASE" "?cmd AND 0xFC \<noteq> LCD_CMD_SHIFT_BASE"
        "?cmd AND LCD_SET_CURSOR_CMD = 0"
    by blast
  then show ?thesis
  proof cases
    case rd
    with assms show ?thesis by (simp add: lcd_handle_command_write_def)
  next
    case c_clear
    with assms(2) have "lcd_handle_clear_command s = Inr s'"
      by (simp add: lcd_handle_command_write_def split: sum.splits)
    with assms(1) show ?thesis by (rule clear_wf)
  next
    case c_home
    with assms(2) have "s' = lcd_handle_home_command s"
      by (simp add: lcd_handle_command_write_def)
    with assms(1) show ?thesis by (simp add: home_wf simple_handlers_geometry)
  next
    case c_entry
    with assms(2) have "s' = lcd_handle_entry_mode_command s ?cmd"
      by (simp add: lcd_handle_command_write_def)
    with assms(1) show ?thesis by (simp add: entry_mode_wf simple_handlers_geometry)
  next
    case c_display
    with assms(2) have "s' = lcd_handle_display_control_command s ?cmd"
      by (simp add: lcd_handle_command_write_def)
    with assms(1) show ?thesis by (simp add: display_control_wf simple_handlers_geometry)
  next
    case c_function
    with assms(2) have "s' = lcd_handle_function_set_command s ?cmd"
      by (simp add: lcd_handle_command_write_def)
    with assms(1) show ?thesis by (simp add: function_set_wf simple_handlers_geometry)
  next
    case c_shift
    with assms(2) have "lcd_handle_shift_command s ?cmd = Inr s'"
      by (simp add: lcd_handle_command_write_def split: sum.splits)
    with assms(1) c_shift(7) show ?thesis
      by (intro shift_wf [of s ?cmd s']) (simp_all add: LCD_CMD_SHIFT_BASE_def)
  next
    case c_setc
    with assms(2) have "lcd_handle_set_cursor_command s ?cmd = Inr s'"
      by (simp add: lcd_handle_command_write_def split: sum.splits)
    with assms(1) show ?thesis by (rule set_cursor_wf)
  next
    case c_other
    with assms show ?thesis by (simp add: lcd_handle_command_write_def)
  qed
qed

lemma lcd_wf_reg [simp]:
  "lcd_wf (s\<lparr>reg := r\<rparr>) = lcd_wf s"
  "lcd_wf (s\<lparr>reg_prev := r\<rparr>) = lcd_wf s"
  by (simp_all add: lcd_wf_def)

lemma data_write_wf:
  assumes "lcd_wf s" and "lcd_handle_data_write s = Inr (p, s')"
  shows "lcd_wf s' \<and> rows s' = rows s \<and> cols s' = cols s \<and> addr s' = addr s"
proof (cases "\<not> rw (reg s) \<and> current_col s < cols s")
  case False
  with assms show ?thesis
    by (auto simp: lcd_handle_data_write_def split: if_splits)
next
  case True
  let ?idx = "current_row s * cols s + current_col s"
  let ?t = "s\<lparr>buffer := (buffer s)[nat ?idx := data (reg s)]\<rparr>"
  from True assms(2) have adv: "lcd_advance_cursor ?t = Inr s'"
    by (simp add: lcd_handle_data_write_def Let_def split: if_splits sum.splits)
  from assms(1) have wf: "lcd_wf ?t" by (simp add: lcd_wf_def)
  from True assms(2) have "0 \<le> ?idx"
    by (simp add: lcd_handle_data_write_def Let_def split: if_splits)
  with assms(1) True have "0 \<le> current_col ?t" "current_col ?t < cols ?t"
    by (auto simp: lcd_wf_def)
  with wf adv advance_wf [of ?t s'] show ?thesis by simp
qed

lemma execute_command_wf:
  assumes "lcd_wf s" and "lcd_execute_command s = Inr (p, s')"
  shows "lcd_wf s' \<and> rows s' = rows s \<and> cols s' = cols s \<and> addr s' = addr s"
  using assms data_write_wf [of s p s'] command_write_wf [of s p s']
  by (auto simp: lcd_execute_command_def split: if_splits)

lemma lcd_write32_wf:
  assumes "lcd_wf s" and "lcd_write32 s a v = Inr (p, s')"
  shows "lcd_wf s' \<and> rows s' = rows s \<and> cols s' = cols s \<and> addr s' = addr s"
proof -
  let ?t = "s\<lparr>reg_prev := reg s, reg := (reg s)\<lparr>rs := bit v 0, rw := bit v 1, e := bit v 2\<rparr>\<rparr>"
  consider "a - addr s = REGISTER_DATA"
    | "a - addr s \<noteq> REGISTER_DATA" "a - addr s = REGISTER_CONTROL"
    | "a - addr s \<noteq> REGISTER_DATA" "a - addr s \<noteq> REGISTER_CONTROL"
    by blast
  then show ?thesis
  proof cases
    case 1
    with assms show ?thesis by (auto simp: lcd_write32_def Let_def)
  next
    case 2
    with assms(2) have "lcd_execute_command ?t = Inr (p, s')"
      by (simp add: lcd_write32_def Let_def)
    with assms(1) execute_command_wf [of ?t p s'] show ?thesis by simp
  next
    case 3
    with assms show ?thesis by (auto simp: lcd_write32_def Let_def)
  qed
qed

lemma write_sequence_wf:
  "lcd_wf s \<Longrightarrow> write_sequence s ws = Inr s'
     \<Longrightarrow> lcd_wf s' \<and> rows s' = rows s \<and> cols s' = cols s \<and> addr s' = addr s"
proof (induction ws arbitrary: s)
  case Nil
  then show ?case by simp
next
  case (Cons w ws)
  obtain a v where w: "w = (a, v)" by (cases w)
  from Cons.prems(2) w obtain p t where
    step: "lcd_write32 s a v = Inr (p, t)" and rest: "write_sequence t ws = Inr s'"
    by (auto split: sum.splits)
  from Cons.prems(1) step have t: "lcd_wf t" "rows t = rows s" "cols t = cols s" "addr t = addr s"
    using lcd_write32_wf by blast+
  with Cons.IH [OF t(1) rest] show ?case by simp
qed

lemma dlcd_init_wf:
  assumes "dlcd_init pr cp rp ap r0 r1 = Inr s"
  shows "lcd_wf s"
proof -
  from assms have c: "uint cp \<le> 40" and r: "uint rp \<le> 4"
    and s: "s = \<lparr> rows = uint rp, cols = uint cp, current_row = 0, current_col = 0,
                 reg = r0, reg_prev = r1,
                 buffer = replicate (unat rp * unat cp) 0, addr = ap,
                 display_on = False, increment_mode = True,
                 display_shift_offset = 0, multi_line_mode = False \<rparr>"
    by (auto simp: dlcd_init_def LCD_MAX_COLS_def LCD_MAX_ROWS_def split: if_splits)
  have "nat (uint rp * uint cp) = unat rp * unat cp"
    by (simp add: nat_mult_distrib)
  with c r s show ?thesis by (simp add: lcd_wf_def max_def)
qed

subsection \<open>No fault with at least one row and one column\<close>

lemma cell_index_in_buffer:
  fixes r c n m :: int
  assumes "0 \<le> r" "r < n" "0 \<le> c" "c < m"
  shows "0 \<le> r * m + c" and "r * m + c < n * m"
proof -
  from assms show "0 \<le> r * m + c" by simp
  from assms have "(r + 1) * m \<le> n * m" by (intro mult_right_mono) simp_all
  with assms show "r * m + c < n * m" by (simp add: algebra_simps)
qed

lemma clear_no_fault:
  "lcd_wf s \<Longrightarrow> \<exists>s'. lcd_handle_clear_command s = Inr s'"
  by (simp add: lcd_handle_clear_command_def memset_zero_def lcd_wf_def)

lemma shift_no_fault:
  "1 \<le> rows s \<Longrightarrow> \<exists>s'. lcd_handle_shift_command s cmd = Inr s'"
  by (auto simp: lcd_handle_shift_command_def Let_def c_rem_def split: sum.splits)

lemma set_cursor_no_fault:
  assumes "rows s \<le> 4"
  shows "\<exists>s'. lcd_handle_set_cursor_command s cmd = Inr s'"
proof -
  from assms ddram_scan_no_fault [of 0 s "cmd AND LCD_SET_CURSOR_MASK"]
  obtain res where "ddram_scan s (cmd AND LCD_SET_CURSOR_MASK) 0 = Inr res" by auto
  then show ?thesis
    by (cases res) (auto simp: lcd_handle_set_cursor_command_def lcd_set_cursor_def
        ddram_addr_to_position_def Let_def)
qed

lemma command_write_no_fault:
  assumes "lcd_wf s" and "1 \<le> rows s"
  shows "\<exists>p s'. lcd_handle_command_write s = Inr (p, s')"
proof -
  from assms(1) have "rows s \<le> 4" by (simp add: lcd_wf_def)
  with assms clear_no_fault [of s] shift_no_fault [of s "data (reg s)"]
    set_cursor_no_fault [of s "data (reg s)"]
  show ?thesis
    by (auto simp: lcd_handle_command_write_def Let_def)
qed

lemma data_write_no_fault:
  assumes "lcd_wf s" and "1 \<le> rows s" and "1 \<le> cols s"
  shows "\<exists>p s'. lcd_handle_data_write s = Inr (p, s')"
proof (cases "\<not> rw (reg s) \<and> current_col s < cols s")
  case False
  then show ?thesis by (auto simp: lcd_handle_data_write_def)
next
  case True
  let ?idx = "current_row s * cols s + current_col s"
  let ?t = "s\<lparr>buffer := (buffer s)[nat ?idx := data (reg s)]\<rparr>"
  from assms have rng: "0 \<le> current_row s" "current_row s < rows s"
    "0 \<le> current_col s" "current_col s < cols s"
    by (auto simp: lcd_wf_def)
  from cell_index_in_buffer [OF rng] assms(1)
  have idx: "0 \<le> ?idx" "nat ?idx < length (buffer s)"
    by (simp_all add: lcd_wf_def)
  from assms(1) have "lcd_wf ?t" by (simp add: lcd_wf_def)
  with assms(2) advance_no_fault [of ?t] obtain s' where "lcd_advance_cursor ?t = Inr s'"
    by auto
  with True idx show ?thesis
    by (auto simp: lcd_handle_data_write_def Let_def)
qed

lemma lcd_write32_no_fault:
  assumes "lcd_wf s" and "1 \<le> rows s" and "1 \<le> cols s"
  shows "\<exists>p s'. lcd_write32 s a v = Inr (p, s')"
proof -
  let ?t = "s\<lparr>reg_prev := reg s, reg := (reg s)\<lparr>rs := bit v 0, rw := bit v 1, e := bit v 2\<rparr>\<rparr>"
  from assms have "lcd_wf ?t" "1 \<le> rows ?t" "1 \<le> cols ?t" by simp_all
  with command_write_no_fault [of ?t] data_write_no_fault [of ?t]
  have "\<exists>p s'. lcd_execute_command ?t = Inr (p, s')"
    by (auto simp: lcd_execute_command_def)
  then show ?thesis
    by (auto simp: lcd_write32_def Let_def)
qed

lemma write_sequence_no_fault:
  "lcd_wf s \<Longrightarrow> 1 \<le> rows s \<Longrightarrow> 1 \<le> cols s \<Longrightarrow> \<exists>s'. write_sequence s ws = Inr s'"
proof (induction ws arbitrary: s)
  case Nil
  then show ?case by simp
next
  case (Cons w ws)
  obtain a v where w: "w = (a, v)" by (cases w)
  from Cons.prems lcd_write32_no_fault [of s a v] obtain p t where
    step: "lcd_write32 s a v = Inr (p, t)" by blast
  with Cons.prems lcd_write32_wf [of s a v p t]
  have "lcd_wf t" "1 \<le> rows t" "1 \<le> cols t" by simp_all
  from Cons.IH [OF this] step w show ?case by simp
qed

subsection \<open>Bounds of the integer fields\<close>

lemma write_sequence_small:
  assumes "dlcd_init phys_range cols_p rows_p addr_p reg0 reg_prev0 = Inr s0"
    and "write_sequence s0 ws = Inr s"
  shows "0 \<le> rows s \<and> rows s \<le> 4 \<and> 0 \<le> cols s \<and> cols s \<le> 40 \<and>
         0 \<le> current_row s \<and> current_row s \<le> 3 \<and>
         - 1 \<le> current_col s \<and> current_col s \<le> 39 \<and> display_shift_offset s = 0"
proof -
  from assms(1) have "lcd_wf s0" by (rule dlcd_init_wf)
  with assms(2) have "lcd_wf s" using write_sequence_wf by blast
  then show ?thesis by (auto simp: lcd_wf_def)
qed

subsection \<open>The decoder\<close>

text \<open>
  A command byte with the top bit set passes every earlier test of the decoder. A byte
  \<open>0001 1xxx\<close>, the display-shift instruction of the HD44780, passes all of them and
  is dropped; the handler itself would have clamped the offset.
\<close>

lemma top_bit_dispatch:
  fixes cmd :: "8 word"
  assumes "cmd AND 0x80 \<noteq> 0"
  shows "cmd \<noteq> 0x01" "cmd \<noteq> 0x02" "cmd AND 0xFC \<noteq> 0x04" "cmd AND 0xF8 \<noteq> 0x08"
    "cmd AND 0xE0 \<noteq> 0x20" "cmd AND 0xFC \<noteq> 0x10"
proof -
  from assms show "cmd \<noteq> 0x01" "cmd \<noteq> 0x02" by auto
  have "cmd AND 0x80 = (cmd AND 0xFC) AND 0x80" by (simp add: and.assoc)
  with assms show "cmd AND 0xFC \<noteq> 0x04" "cmd AND 0xFC \<noteq> 0x10" by auto
  have "cmd AND 0x80 = (cmd AND 0xF8) AND 0x80" by (simp add: and.assoc)
  with assms show "cmd AND 0xF8 \<noteq> 0x08" by auto
  have "cmd AND 0x80 = (cmd AND 0xE0) AND 0x80" by (simp add: and.assoc)
  with assms show "cmd AND 0xE0 \<noteq> 0x20" by auto
qed

lemma display_shift_codes:
  fixes cmd :: "8 word"
  assumes "cmd AND 0xF0 = 0x10" and "cmd AND 0x08 \<noteq> 0"
  shows "cmd \<noteq> 0x01" "cmd \<noteq> 0x02" "cmd AND 0xFC \<noteq> 0x04" "cmd AND 0xF8 \<noteq> 0x08"
    "cmd AND 0xE0 \<noteq> 0x20" "cmd AND 0xFC \<noteq> 0x10" "cmd AND 0x80 = 0"
proof -
  from assms(1) show "cmd \<noteq> 0x01" "cmd \<noteq> 0x02" by auto
  have "cmd AND 0xF0 = (cmd AND 0xFC) AND 0xF0" by (simp add: and.assoc)
  with assms(1) show "cmd AND 0xFC \<noteq> 0x04" by auto
  have "cmd AND 0xF0 = (cmd AND 0xF8) AND 0xF0" by (simp add: and.assoc)
  with assms(1) show "cmd AND 0xF8 \<noteq> 0x08" by auto
  have "cmd AND 0xE0 = (cmd AND 0xF0) AND 0xE0" by (simp add: and.assoc)
  with assms(1) show "cmd AND 0xE0 \<noteq> 0x20" by auto
  from assms(2) shift_mask_bits(1) [of cmd] show "cmd AND 0xFC \<noteq> 0x10" by auto
  have "cmd AND 0x80 = (cmd AND 0xF0) AND 0x80" by (simp add: and.assoc)
  with assms(1) show "cmd AND 0x80 = 0" by simp
qed

lemma display_shift_codes_ignored:
  fixes s :: lcd_data
  assumes "data (reg s) AND 0xF0 = 0x10" and "data (reg s) AND 0x08 \<noteq> 0"
  shows "lcd_handle_command_write s = Inr (False, s)"
  using display_shift_codes [OF assms]
  by (simp add: lcd_handle_command_write_def lcd_consts)

lemma shift_handler_display_right:
  assumes "cmd AND 0x08 \<noteq> 0" and "cmd AND 0x04 \<noteq> 0"
    and "0 \<le> cols s" and "- cols s \<le> display_shift_offset s"
  shows "lcd_handle_shift_command s cmd =
           Inr (s\<lparr>display_shift_offset := min (display_shift_offset s + 1) (cols s)\<rparr>)"
  using assms by (auto simp: lcd_handle_shift_command_def Let_def min_def)

subsection \<open>Address translation\<close>

lemma ddram_scan_None:
  "ddram_scan d a i = Inr None \<Longrightarrow> 0 \<le> i \<Longrightarrow> i \<le> j \<Longrightarrow> j < rows d
     \<Longrightarrow> \<not> row_matches a (nat j)"
proof (induction d a i rule: ddram_scan.induct)
  case (1 d a i)
  from "1.prems" have lt: "i < rows d" by simp
  from "1.prems"(1) lt have inb: "0 \<le> i \<and> nat i < length row_addr_map"
    by (subst (asm) ddram_scan.simps) (simp split: if_splits)
  from "1.prems"(1) lt inb have nomatch: "\<not> row_matches a (nat i)"
    and rest: "ddram_scan d a (i + 1) = Inr None"
    by (subst (asm) ddram_scan.simps, simp add: Let_def row_matches_def split: if_splits)+
  show ?case
  proof (cases "j = i")
    case True
    with nomatch show ?thesis by simp
  next
    case False
    with "1.prems" have "i + 1 \<le> j" by simp
    with "1.IH" [OF lt inb refl _ rest] nomatch "1.prems" show ?thesis
      by (simp add: row_matches_def)
  qed
qed

lemma ddram_scan_Some_match:
  "ddram_scan d a i = Inr (Some (r, c)) \<Longrightarrow> 0 \<le> i \<Longrightarrow> r < rows d \<and> 0 \<le> r \<and> row_matches a (nat r)"
proof (induction d a i rule: ddram_scan.induct)
  case (1 d a i)
  from "1.prems"(1) show ?case
    apply (subst (asm) ddram_scan.simps)
    apply (simp split: if_splits add: Let_def row_matches_def)
    using 1 apply (auto simp: row_matches_def)
    done
qed

lemma ddram_addr_to_position_match:
  assumes "rows d \<le> 4"
  shows "(addr_in_configured_row d a \<longrightarrow>
            (\<exists>r c. ddram_addr_to_position d a = Inr (Some (r, c)))) \<and>
         (\<not> addr_in_configured_row d a \<longrightarrow> ddram_addr_to_position d a = Inr None)"
proof -
  from assms ddram_scan_no_fault [of 0 d a] obtain res where
    res: "ddram_scan d a 0 = Inr res" by auto
  show ?thesis
  proof (cases res)
    case None
    have "\<not> addr_in_configured_row d a"
    proof
      assume "addr_in_configured_row d a"
      then obtain i where i: "i < nat (rows d)" "row_matches a i"
        by (auto simp: addr_in_configured_row_def)
      from i(1) have "0 \<le> int i" "int i < rows d" by simp_all
      with ddram_scan_None [of d a 0 "int i"] res None have "\<not> row_matches a (nat (int i))"
        by simp
      with i(2) show False by simp
    qed
    with res None show ?thesis by (simp add: ddram_addr_to_position_def)
  next
    case (Some rc)
    obtain r c where rc: "rc = (r, c)" by (cases rc)
    with res Some ddram_scan_Some_match [of d a 0 r c]
    have "r < rows d" "0 \<le> r" "row_matches a (nat r)" by simp_all
    then have "addr_in_configured_row d a"
      by (auto simp: addr_in_configured_row_def intro!: exI [of _ "nat r"])
    with res Some rc show ?thesis by (simp add: ddram_addr_to_position_def)
  qed
qed

section \<open>Concrete runs\<close>

lemma init_4x2:
  "dlcd_init phys_range_36 4 2 0x1000 reg_idle reg_idle = Inr lcd_4x2"
  by (simp add: dlcd_init_def phys_range_36_def lcd_consts lcd_4x2_def)

lemma init_4x0:
  "dlcd_init phys_range_36 4 0 0x1000 reg_idle reg_idle = Inr lcd_4x0"
  by (simp add: dlcd_init_def phys_range_36_def lcd_consts lcd_4x0_def)

lemma run_shift_attempt:
  "write_sequence lcd_4x2 [(0x1000, 0x1C), (0x1001, 4), (0x1001, 0)] =
     Inr (lcd_4x2\<lparr>reg := \<lparr>rs = False, rw = False, e = False, data = 0x1C\<rparr>,
                  reg_prev := \<lparr>rs = False, rw = False, e = True, data = 0x1C\<rparr>\<rparr>)"
  by (simp add: lcd_4x2_def reg_idle_def lcd_write32_def lcd_execute_command_def
      lcd_handle_command_write_def lcd_consts)

lemma run_write_A:
  "write_sequence lcd_4x2 [(0x1000, 0x41), (0x1001, 5), (0x1001, 1)] =
     Inr (lcd_4x2\<lparr>reg := \<lparr>rs = True, rw = False, e = False, data = 0x41\<rparr>,
                  reg_prev := \<lparr>rs = True, rw = False, e = True, data = 0x41\<rparr>,
                  buffer := [0x41, 0, 0, 0, 0, 0, 0, 0], current_col := 1\<rparr>)"
  by code_simp

lemma run_write_A_latch_clear:
  "write_sequence lcd_4x2 [(0x1000, 0x41), (0x1001, 5), (0x1001, 1), (0x1000, 0x01), (0x1001, 4)] =
     Inr (lcd_4x2\<lparr>reg := \<lparr>rs = False, rw = False, e = True, data = 0x01\<rparr>,
                  reg_prev := \<lparr>rs = True, rw = False, e = False, data = 0x01\<rparr>,
                  buffer := [0x41, 0, 0, 0, 0, 0, 0, 0], current_col := 1\<rparr>)"
  by code_simp

lemma run_to_row_1:
  "write_sequence lcd_4x2
     [(0x1000, 0x28), (0x1001, 4), (0x1001, 0),
      (0x1000, 0xC0), (0x1001, 4), (0x1001, 0),
      (0x1000, 0x20), (0x1001, 4), (0x1001, 0),
      (0x1000, 0xA8), (0x1001, 4)] = Inr lcd_4x2_on_row_1"
  by code_simp

section \<open>Construction\<close>

text \<open>
  C3, as the code has it: construction succeeds exactly when the column count is at
  most 40, the row count is at most 4, and \<open>phys_range\<close> accepts both the base address
  and the base address plus 4; otherwise it reports an error and creates no device.
  There is no lower bound on the geometry.
\<close>

theorem dlcd_init_accepts:
  "((\<exists>s. dlcd_init phys_range cols_p rows_p addr_p reg0 reg_prev0 = Inr s) \<longleftrightarrow>
      uint cols_p \<le> 40 \<and> uint rows_p \<le> 4 \<and> phys_range addr_p \<and> phys_range (addr_p + 4)) \<and>
   ((\<exists>err. dlcd_init phys_range cols_p rows_p addr_p reg0 reg_prev0 = Inl err) \<longleftrightarrow>
      40 < uint cols_p \<or> 4 < uint rows_p \<or> \<not> phys_range addr_p \<or> \<not> phys_range (addr_p + 4))"
  by (auto simp: dlcd_init_def lcd_consts)

theorem dlcd_init_accepts_witness:
  "(\<exists>s. dlcd_init phys_range_36 40 4 0x1000 reg_idle reg_idle = Inr s) \<and>
   uint (40 :: 32 word) \<le> 40 \<and> uint (4 :: 32 word) \<le> 4 \<and>
   phys_range_36 0x1000 \<and> phys_range_36 (0x1000 + 4)"
  using dlcd_init_accepts [of phys_range_36 40 4 "0x1000" reg_idle reg_idle]
  by (simp add: phys_range_36_def)

text \<open>
  C3 as stated fails: a configuration with 16 columns and no row is accepted, and
  the device is created.
\<close>

theorem dlcd_init_zero_rows:
  "dlcd_init phys_range_36 16 0 0x1000 reg_idle reg_idle =
     Inr \<lparr> rows = 0, cols = 16, current_row = 0, current_col = 0,
           reg = reg_idle, reg_prev = reg_idle,
           buffer = [], addr = 0x1000,
           display_on = False, increment_mode = True,
           display_shift_offset = 0, multi_line_mode = False \<rparr> \<and>
   \<not> 1 \<le> uint (0 :: 32 word)"
  by (simp add: dlcd_init_def phys_range_36_def lcd_consts)

text \<open>
  C10: immediately after successful construction the display is off, the entry mode
  is increment, multi-line mode is off, the shift offset is 0, the cursor is at
  (0,0), and the buffer consists of \<open>rows * cols\<close> zero bytes.
\<close>

theorem dlcd_init_state:
  assumes "dlcd_init phys_range cols_p rows_p addr_p reg0 reg_prev0 = Inr s"
  shows "\<not> display_on s \<and> increment_mode s \<and> \<not> multi_line_mode s \<and>
         display_shift_offset s = 0 \<and> current_row s = 0 \<and> current_col s = 0 \<and>
         buffer s = replicate (nat (rows s * cols s)) 0"
proof -
  from assms have s: "s = \<lparr> rows = uint rows_p, cols = uint cols_p,
                 current_row = 0, current_col = 0,
                 reg = reg0, reg_prev = reg_prev0,
                 buffer = replicate (unat rows_p * unat cols_p) 0, addr = addr_p,
                 display_on = False, increment_mode = True,
                 display_shift_offset = 0, multi_line_mode = False \<rparr>"
    by (auto simp: dlcd_init_def split: if_splits)
  have "nat (uint rows_p * uint cols_p) = unat rows_p * unat cols_p"
    by (simp add: nat_mult_distrib)
  with s show ?thesis by simp
qed

theorem dlcd_init_state_witness:
  "dlcd_init phys_range_36 4 2 0x1000 reg_idle reg_idle = Inr lcd_4x2 \<and>
   \<not> display_on lcd_4x2 \<and> increment_mode lcd_4x2 \<and> \<not> multi_line_mode lcd_4x2 \<and>
   display_shift_offset lcd_4x2 = 0 \<and> current_row lcd_4x2 = 0 \<and> current_col lcd_4x2 = 0 \<and>
   buffer lcd_4x2 = replicate (nat (rows lcd_4x2 * cols lcd_4x2)) 0"
  using init_4x2 dlcd_init_state [OF init_4x2] by simp

section \<open>Invariants of reachable states\<close>

text \<open>
  C9: in every state reached from construction by a sequence of register writes, the
  display shift offset is 0. The decoder calls the shift handler only for a byte with
  \<open>cmd AND 0xFC = 0x10\<close>, whose bits 2 and 3 are clear (\<open>shift_mask_bits\<close>), so the
  handler only ever moves the cursor left.
\<close>

theorem display_shift_offset_always_zero:
  assumes "dlcd_init phys_range cols_p rows_p addr_p reg0 reg_prev0 = Inr s0"
    and "write_sequence s0 ws = Inr s"
  shows "display_shift_offset s = 0"
proof -
  from assms(1) have "lcd_wf s0" by (rule dlcd_init_wf)
  with assms(2) have "lcd_wf s" using write_sequence_wf by blast
  then show ?thesis by (simp add: lcd_wf_def)
qed

theorem display_shift_offset_always_zero_witness:
  "dlcd_init phys_range_36 4 2 0x1000 reg_idle reg_idle = Inr lcd_4x2 \<and>
   write_sequence lcd_4x2 [(0x1000, 0x1C), (0x1001, 4), (0x1001, 0)] =
     Inr (lcd_4x2\<lparr>reg := \<lparr>rs = False, rw = False, e = False, data = 0x1C\<rparr>,
                  reg_prev := \<lparr>rs = False, rw = False, e = True, data = 0x1C\<rparr>\<rparr>) \<and>
   display_shift_offset
     (lcd_4x2\<lparr>reg := \<lparr>rs = False, rw = False, e = False, data = 0x1C\<rparr>,
              reg_prev := \<lparr>rs = False, rw = False, e = True, data = 0x1C\<rparr>\<rparr>) = 0"
  using init_4x2 run_shift_attempt
    display_shift_offset_always_zero [OF init_4x2 run_shift_attempt]
  by simp

text \<open>
  C4, as the code has it: for an instance constructed with at least one row and at
  least one column, every sequence of register writes runs without a fault, keeps the
  geometry, and ends in a state with \<open>0 \<le> current_row < rows\<close>,
  \<open>0 \<le> current_col < cols\<close>, \<open>-cols \<le> display_shift_offset \<le> cols\<close> and a buffer of
  \<open>rows * cols\<close> bytes. Every prefix of a sequence is a sequence, so this holds after
  each write.
\<close>

theorem write_sequence_invariant:
  assumes "dlcd_init phys_range cols_p rows_p addr_p reg0 reg_prev0 = Inr s0"
    and "1 \<le> uint rows_p" and "1 \<le> uint cols_p"
  shows "\<exists>s. write_sequence s0 ws = Inr s \<and>
           rows s = uint rows_p \<and> cols s = uint cols_p \<and>
           0 \<le> current_row s \<and> current_row s < rows s \<and>
           0 \<le> current_col s \<and> current_col s < cols s \<and>
           - cols s \<le> display_shift_offset s \<and> display_shift_offset s \<le> cols s \<and>
           length (buffer s) = nat (rows s * cols s)"
proof -
  from assms(1) have wf0: "lcd_wf s0" by (rule dlcd_init_wf)
  from assms(1) have geo: "rows s0 = uint rows_p" "cols s0 = uint cols_p"
    by (auto simp: dlcd_init_def split: if_splits)
  with wf0 assms(2,3) write_sequence_no_fault [of s0 ws]
  obtain s where run: "write_sequence s0 ws = Inr s" by auto
  with wf0 write_sequence_wf [of s0 ws s]
  have "lcd_wf s" "rows s = rows s0" "cols s = cols s0" by simp_all
  with geo assms(2,3) run show ?thesis
    by (auto simp: lcd_wf_def)
qed

theorem write_sequence_invariant_witness:
  "dlcd_init phys_range_36 4 2 0x1000 reg_idle reg_idle = Inr lcd_4x2 \<and>
   1 \<le> uint (2 :: 32 word) \<and> 1 \<le> uint (4 :: 32 word) \<and>
   (\<exists>s. write_sequence lcd_4x2 [(0x1000, 0x41), (0x1001, 5), (0x1001, 1)] = Inr s \<and>
        rows s = uint (2 :: 32 word) \<and> cols s = uint (4 :: 32 word) \<and>
        0 \<le> current_row s \<and> current_row s < rows s \<and>
        0 \<le> current_col s \<and> current_col s < cols s \<and>
        - cols s \<le> display_shift_offset s \<and> display_shift_offset s \<le> cols s \<and>
        length (buffer s) = nat (rows s * cols s))"
proof -
  have r: "1 \<le> uint (2 :: 32 word)" and c: "1 \<le> uint (4 :: 32 word)" by simp_all
  from write_sequence_invariant [OF init_4x2 r c] init_4x2 r c show ?thesis by blast
qed

text \<open>
  C4 as stated fails: construction with 4 columns and no row succeeds, and after a
  write to the data register \<open>current_row = 0\<close> is not below \<open>rows = 0\<close>.
\<close>

theorem zero_rows_cursor_outside:
  "dlcd_init phys_range_36 4 0 0x1000 reg_idle reg_idle = Inr lcd_4x0 \<and>
   write_sequence lcd_4x0 [(0x1000, 0x41)] = Inr (lcd_4x0\<lparr>reg := reg_idle\<lparr>data := 0x41\<rparr>\<rparr>) \<and>
   \<not> current_row (lcd_4x0\<lparr>reg := reg_idle\<lparr>data := 0x41\<rparr>\<rparr>)
       < rows (lcd_4x0\<lparr>reg := reg_idle\<lparr>data := 0x41\<rparr>\<rparr>)"
  using init_4x0 by (simp add: lcd_4x0_def lcd_write32_def lcd_consts reg_idle_def)

section \<open>Execution on the falling edge of enable\<close>

text \<open>
  C6: a write to the control register executes a command or a data write only when
  the enable bit was set before the write, is clear in the written value, and the
  read/write bit of the written value is clear. In every other case the write only
  replaces the two register snapshots: every other field of the state is unchanged
  and nothing is printed.
\<close>

theorem control_write_without_execution:
  assumes "a - addr s = REGISTER_CONTROL"
    and "\<not> (e (reg s) \<and> \<not> bit v 2) \<or> bit v 1"
  shows "lcd_write32 s a v =
           Inr (False, s\<lparr>reg_prev := reg s,
                         reg := (reg s)\<lparr>rs := bit v 0, rw := bit v 1, e := bit v 2\<rparr>\<rparr>)"
  using assms
  by (auto simp: lcd_write32_def Let_def REGISTER_DATA_def REGISTER_CONTROL_def
      lcd_execute_command_def lcd_handle_data_write_def lcd_handle_command_write_def)

theorem control_write_without_execution_witness:
  "(0x1001 :: 64 word) - addr (lcd_4x2\<lparr>reg := \<lparr>rs = False, rw = False, e = True, data = 0x01\<rparr>\<rparr>)
     = REGISTER_CONTROL \<and>
   e (reg (lcd_4x2\<lparr>reg := \<lparr>rs = False, rw = False, e = True, data = 0x01\<rparr>\<rparr>)) \<and>
   \<not> bit (2 :: 32 word) 2 \<and> bit (2 :: 32 word) 1 \<and>
   lcd_write32 (lcd_4x2\<lparr>reg := \<lparr>rs = False, rw = False, e = True, data = 0x01\<rparr>\<rparr>) 0x1001 2 =
     Inr (False, lcd_4x2\<lparr>reg_prev := \<lparr>rs = False, rw = False, e = True, data = 0x01\<rparr>,
                         reg := \<lparr>rs = False, rw = True, e = False, data = 0x01\<rparr>\<rparr>)"
proof -
  let ?s = "lcd_4x2\<lparr>reg := \<lparr>rs = False, rw = False, e = True, data = 0x01\<rparr>\<rparr>"
  have h1: "(0x1001 :: 64 word) - addr ?s = REGISTER_CONTROL"
    by (simp add: lcd_4x2_def REGISTER_CONTROL_def)
  have h2: "\<not> (e (reg ?s) \<and> \<not> bit (2 :: 32 word) 2) \<or> bit (2 :: 32 word) 1"
    by simp
  from control_write_without_execution [OF h1 h2] h1 h2 show ?thesis by simp
qed

section \<open>Commands\<close>

text \<open>
  C7: in every state reached from construction by a sequence of register writes,
  executing the Clear command (byte \<open>0x01\<close> latched, falling edge of enable, register
  select and read/write clear) leaves a buffer of \<open>rows * cols\<close> zero bytes, the cursor
  at (0,0) and the shift offset 0, and the display is printed.
\<close>

theorem clear_command:
  assumes "dlcd_init phys_range cols_p rows_p addr_p reg0 reg_prev0 = Inr s0"
    and "write_sequence s0 ws = Inr s"
    and "a - addr s = REGISTER_CONTROL"
    and "e (reg s)" and "\<not> bit v 2" and "\<not> bit v 1" and "\<not> bit v 0"
    and "data (reg s) = LCD_CMD_CLEAR"
  shows "\<exists>s'. lcd_write32 s a v = Inr (True, s') \<and>
           buffer s' = replicate (nat (rows s * cols s)) 0 \<and>
           current_row s' = 0 \<and> current_col s' = 0 \<and> display_shift_offset s' = 0 \<and>
           rows s' = rows s \<and> cols s' = cols s"
proof -
  from assms(1) have "lcd_wf s0" by (rule dlcd_init_wf)
  with assms(2) have "lcd_wf s" using write_sequence_wf by blast
  then have len: "length (buffer s) = nat (rows s * cols s)" and "0 \<le> rows s * cols s"
    by (simp_all add: lcd_wf_def)
  then have "memset_zero (buffer s) (rows s * cols s) = Inr (replicate (nat (rows s * cols s)) 0)"
    by (simp add: memset_zero_def)
  with assms(3-) show ?thesis
    by (simp add: lcd_write32_def Let_def lcd_execute_command_def lcd_handle_command_write_def
        lcd_handle_clear_command_def lcd_consts)
qed

theorem clear_command_witness:
  "dlcd_init phys_range_36 4 2 0x1000 reg_idle reg_idle = Inr lcd_4x2 \<and>
   write_sequence lcd_4x2 [(0x1000, 0x41), (0x1001, 5), (0x1001, 1), (0x1000, 0x01), (0x1001, 4)] =
     Inr (lcd_4x2\<lparr>reg := \<lparr>rs = False, rw = False, e = True, data = 0x01\<rparr>,
                  reg_prev := \<lparr>rs = True, rw = False, e = False, data = 0x01\<rparr>,
                  buffer := [0x41, 0, 0, 0, 0, 0, 0, 0], current_col := 1\<rparr>) \<and>
   (\<exists>s'. lcd_write32
           (lcd_4x2\<lparr>reg := \<lparr>rs = False, rw = False, e = True, data = 0x01\<rparr>,
                    reg_prev := \<lparr>rs = True, rw = False, e = False, data = 0x01\<rparr>,
                    buffer := [0x41, 0, 0, 0, 0, 0, 0, 0], current_col := 1\<rparr>) 0x1001 0
           = Inr (True, s') \<and>
         buffer s' = replicate 8 0 \<and>
         current_row s' = 0 \<and> current_col s' = 0 \<and> display_shift_offset s' = 0)"
proof -
  let ?s = "lcd_4x2\<lparr>reg := \<lparr>rs = False, rw = False, e = True, data = 0x01\<rparr>,
                    reg_prev := \<lparr>rs = True, rw = False, e = False, data = 0x01\<rparr>,
                    buffer := [0x41, 0, 0, 0, 0, 0, 0, 0], current_col := 1\<rparr>"
  have h3: "(0x1001 :: 64 word) - addr ?s = REGISTER_CONTROL"
    by (simp add: lcd_4x2_def REGISTER_CONTROL_def)
  have h4: "e (reg ?s)" and h5: "\<not> bit (0 :: 32 word) 2" and h6: "\<not> bit (0 :: 32 word) 1"
    and h7: "\<not> bit (0 :: 32 word) 0" and h8: "data (reg ?s) = LCD_CMD_CLEAR"
    by (simp_all add: LCD_CMD_CLEAR_def)
  have geo: "nat (rows ?s * cols ?s) = 8" by (simp add: lcd_4x2_def)
  from clear_command [OF init_4x2 run_write_A_latch_clear h3 h4 h5 h6 h7 h8] geo
    init_4x2 run_write_A_latch_clear
  show ?thesis by auto
qed

text \<open>
  C8: in every state, executing the Home command (byte \<open>0x02\<close>) puts the cursor at
  (0,0) and the shift offset to 0, leaves the buffer as it was, and prints nothing.
\<close>

theorem home_command:
  assumes "a - addr s = REGISTER_CONTROL"
    and "e (reg s)" and "\<not> bit v 2" and "\<not> bit v 1" and "\<not> bit v 0"
    and "data (reg s) = LCD_CMD_HOME"
  shows "\<exists>s'. lcd_write32 s a v = Inr (False, s') \<and>
           current_row s' = 0 \<and> current_col s' = 0 \<and> display_shift_offset s' = 0 \<and>
           buffer s' = buffer s \<and>
           s' = s\<lparr>reg_prev := reg s, reg := (reg s)\<lparr>rs := False, rw := False, e := False\<rparr>,
                  current_row := 0, current_col := 0, display_shift_offset := 0\<rparr>"
  using assms
  by (simp add: lcd_write32_def Let_def lcd_execute_command_def lcd_handle_command_write_def
      lcd_handle_home_command_def lcd_consts)

theorem home_command_witness:
  "(0x1001 :: 64 word)
     - addr (lcd_4x2\<lparr>reg := \<lparr>rs = True, rw = False, e = True, data = 0x02\<rparr>,
                     buffer := [0x41, 0, 0, 0, 0, 0, 0, 0], current_col := 1\<rparr>) = REGISTER_CONTROL \<and>
   (\<exists>s'. lcd_write32 (lcd_4x2\<lparr>reg := \<lparr>rs = True, rw = False, e = True, data = 0x02\<rparr>,
                     buffer := [0x41, 0, 0, 0, 0, 0, 0, 0], current_col := 1\<rparr>) 0x1001 0
            = Inr (False, s') \<and>
         current_row s' = 0 \<and> current_col s' = 0 \<and> display_shift_offset s' = 0 \<and>
         buffer s' = [0x41, 0, 0, 0, 0, 0, 0, 0])"
proof -
  let ?s = "lcd_4x2\<lparr>reg := \<lparr>rs = True, rw = False, e = True, data = 0x02\<rparr>,
                     buffer := [0x41, 0, 0, 0, 0, 0, 0, 0], current_col := 1\<rparr>"
  have h1: "(0x1001 :: 64 word) - addr ?s = REGISTER_CONTROL"
    by (simp add: lcd_4x2_def REGISTER_CONTROL_def)
  have h2: "e (reg ?s)" and h3: "\<not> bit (0 :: 32 word) 2" and h4: "\<not> bit (0 :: 32 word) 1"
    and h5: "\<not> bit (0 :: 32 word) 0" and h6: "data (reg ?s) = LCD_CMD_HOME"
    by (simp_all add: LCD_CMD_HOME_def)
  from home_command [OF h1 h2 h3 h4 h5 h6] h1 show ?thesis by auto
qed

text \<open>
  C2, as the code has it: with multi-line mode off, executing Set-DDRAM-Address (a
  command byte with the top bit set) yields \<open>current_row = 0\<close> when the 7-bit address
  lies in the range of one of the configured rows; for an address in no configured
  row's range the cursor stays where it was.
\<close>

theorem set_ddram_address_single_line:
  assumes "a - addr s = REGISTER_CONTROL"
    and "e (reg s)" and "\<not> bit v 2" and "\<not> bit v 1" and "\<not> bit v 0"
    and "data (reg s) AND 0x80 \<noteq> 0"
    and "\<not> multi_line_mode s" and "rows s \<le> 4"
  shows "\<exists>s'. lcd_write32 s a v = Inr (False, s') \<and>
           (if addr_in_configured_row s (data (reg s) AND 0x7F)
            then current_row s' = 0
            else current_row s' = current_row s \<and> current_col s' = current_col s)"
proof -
  let ?t = "s\<lparr>reg_prev := reg s, reg := (reg s)\<lparr>rs := False, rw := False, e := False\<rparr>\<rparr>"
  let ?cmd = "data (reg s)"
  have inrow: "addr_in_configured_row ?t (?cmd AND 0x7F) = addr_in_configured_row s (?cmd AND 0x7F)"
    by (simp add: addr_in_configured_row_def)
  from assms(8) have r4: "rows ?t \<le> 4" by simp
  note m = ddram_addr_to_position_match [OF r4, of "?cmd AND 0x7F", unfolded inrow]
  have exec: "lcd_write32 s a v =
      (case lcd_handle_set_cursor_command ?t ?cmd of
         Inl f \<Rightarrow> Inl f | Inr lcd' \<Rightarrow> Inr (False, lcd'))"
    using assms(1-6) top_bit_dispatch [OF assms(6)]
    by (simp add: lcd_write32_def Let_def lcd_execute_command_def lcd_handle_command_write_def
        lcd_consts)
  show ?thesis
  proof (cases "addr_in_configured_row s (?cmd AND 0x7F)")
    case True
    with m obtain r c where "ddram_addr_to_position ?t (?cmd AND 0x7F) = Inr (Some (r, c))"
      by auto
    with True assms(7) show ?thesis
      by (simp add: exec lcd_handle_set_cursor_command_def Let_def lcd_consts)
  next
    case False
    with m have "ddram_addr_to_position ?t (?cmd AND 0x7F) = Inr None" by simp
    with False assms(7) show ?thesis
      by (simp add: exec lcd_handle_set_cursor_command_def Let_def lcd_consts)
  qed
qed

theorem set_ddram_address_single_line_witness:
  "(0x1001 :: 64 word)
     - addr (lcd_4x2\<lparr>reg := \<lparr>rs = False, rw = False, e = True, data = 0xC2\<rparr>, current_row := 1\<rparr>)
     = REGISTER_CONTROL \<and>
   \<not> multi_line_mode
       (lcd_4x2\<lparr>reg := \<lparr>rs = False, rw = False, e = True, data = 0xC2\<rparr>, current_row := 1\<rparr>) \<and>
   addr_in_configured_row
     (lcd_4x2\<lparr>reg := \<lparr>rs = False, rw = False, e = True, data = 0xC2\<rparr>, current_row := 1\<rparr>)
     0x42 \<and>
   (\<exists>s'. lcd_write32
           (lcd_4x2\<lparr>reg := \<lparr>rs = False, rw = False, e = True, data = 0xC2\<rparr>, current_row := 1\<rparr>)
           0x1001 0 = Inr (False, s') \<and>
         current_row s' = 0)"
proof -
  let ?s = "lcd_4x2\<lparr>reg := \<lparr>rs = False, rw = False, e = True, data = 0xC2\<rparr>, current_row := 1\<rparr>"
  have h1: "(0x1001 :: 64 word) - addr ?s = REGISTER_CONTROL"
    by (simp add: lcd_4x2_def REGISTER_CONTROL_def)
  have h2: "e (reg ?s)" and h3: "\<not> bit (0 :: 32 word) 2" and h4: "\<not> bit (0 :: 32 word) 1"
    and h5: "\<not> bit (0 :: 32 word) 0" and h6: "data (reg ?s) AND 0x80 \<noteq> 0"
    and h7: "\<not> multi_line_mode ?s" and h8: "rows ?s \<le> 4"
    by (simp_all add: lcd_4x2_def)
  have a: "data (reg ?s) AND 0x7F = 0x42" by simp
  have "row_matches 0x42 1" by (simp add: row_matches_def row_addr_map_def LCD_MAX_COLS_def)
  then have m: "addr_in_configured_row ?s 0x42"
    by (auto simp: addr_in_configured_row_def lcd_4x2_def intro!: exI [of _ 1])
  from set_ddram_address_single_line [OF h1 h2 h3 h4 h5 h6 h7 h8] h1 h7 m
  show ?thesis unfolding a by auto
qed

text \<open>
  C2 as stated fails: the 4-by-2 device is brought to row 1 in multi-line mode and
  back to single-line mode; Set-DDRAM-Address with address \<open>0x28\<close>, which no row's
  range contains, then leaves \<open>current_row = 1\<close>.
\<close>

theorem set_ddram_address_keeps_row_1:
  "dlcd_init phys_range_36 4 2 0x1000 reg_idle reg_idle = Inr lcd_4x2 \<and>
   write_sequence lcd_4x2
     [(0x1000, 0x28), (0x1001, 4), (0x1001, 0),
      (0x1000, 0xC0), (0x1001, 4), (0x1001, 0),
      (0x1000, 0x20), (0x1001, 4), (0x1001, 0),
      (0x1000, 0xA8), (0x1001, 4)] = Inr lcd_4x2_on_row_1 \<and>
   \<not> multi_line_mode lcd_4x2_on_row_1 \<and>
   data (reg lcd_4x2_on_row_1) = 0x80 OR 0x28 \<and>
   lcd_write32 lcd_4x2_on_row_1 0x1001 0 =
     Inr (False, lcd_4x2_on_row_1\<lparr>reg := \<lparr>rs = False, rw = False, e = False, data = 0xA8\<rparr>,
                                  reg_prev := \<lparr>rs = False, rw = False, e = True, data = 0xA8\<rparr>\<rparr>) \<and>
   current_row (lcd_4x2_on_row_1\<lparr>reg := \<lparr>rs = False, rw = False, e = False, data = 0xA8\<rparr>,
                                reg_prev := \<lparr>rs = False, rw = False, e = True, data = 0xA8\<rparr>\<rparr>) = 1"
proof -
  have "lcd_write32 lcd_4x2_on_row_1 0x1001 0 =
     Inr (False, lcd_4x2_on_row_1\<lparr>reg := \<lparr>rs = False, rw = False, e = False, data = 0xA8\<rparr>,
                                  reg_prev := \<lparr>rs = False, rw = False, e = True, data = 0xA8\<rparr>\<rparr>)"
    by code_simp
  with init_4x2 run_to_row_1 show ?thesis
    by (simp add: lcd_4x2_on_row_1_def lcd_4x2_def)
qed

text \<open>
  C1: the display-shift-right command \<open>0x1C\<close> (bits 3 and 2 set), latched and executed
  by a falling edge of enable on the 4-by-2 device with offset 0, leaves the state as
  it was apart from the register snapshots: the offset stays 0 where the claim says 1,
  and nothing is printed. By \<open>display_shift_codes_ignored\<close> the same holds of every
  state and every byte \<open>0x18\<close> to \<open>0x1F\<close>.
\<close>

theorem display_shift_right_not_executed:
  "lcd_write32 (lcd_4x2\<lparr>reg := \<lparr>rs = False, rw = False, e = True, data = 0x1C\<rparr>\<rparr>) 0x1001 0 =
     Inr (False, lcd_4x2\<lparr>reg_prev := \<lparr>rs = False, rw = False, e = True, data = 0x1C\<rparr>,
                         reg := \<lparr>rs = False, rw = False, e = False, data = 0x1C\<rparr>\<rparr>) \<and>
   display_shift_offset
     (lcd_4x2\<lparr>reg_prev := \<lparr>rs = False, rw = False, e = True, data = 0x1C\<rparr>,
              reg := \<lparr>rs = False, rw = False, e = False, data = 0x1C\<rparr>\<rparr>) = 0"
  by (simp add: lcd_4x2_def lcd_write32_def lcd_execute_command_def
      lcd_handle_command_write_def lcd_consts)

section \<open>Data writes\<close>

text \<open>
  C5: in a state whose cursor is on a cell of the buffer, in increment mode and at
  the last column, a data write stores the byte at the cursor and moves the cursor to
  column 0; the row is unchanged in single-line mode and becomes
  \<open>(current_row + 1) mod rows\<close> in multi-line mode.
\<close>

theorem data_write_last_column:
  assumes "a - addr s = REGISTER_CONTROL"
    and "e (reg s)" and "\<not> bit v 2" and "\<not> bit v 1" and "bit v 0"
    and "increment_mode s" and "current_col s = cols s - 1"
    and "0 \<le> current_row s" and "current_row s < rows s" and "0 \<le> current_col s"
    and "length (buffer s) = nat (rows s * cols s)"
  shows "\<exists>s'. lcd_write32 s a v = Inr (True, s') \<and>
           current_col s' = 0 \<and>
           current_row s' =
             (if multi_line_mode s then (current_row s + 1) mod rows s else current_row s) \<and>
           buffer s' =
             (buffer s)[nat (current_row s * cols s + current_col s) := data (reg s)]"
proof -
  let ?idx = "current_row s * cols s + current_col s"
  from assms(7) have lt: "current_col s < cols s" by simp
  from cell_index_in_buffer [OF assms(8,9,10) lt] assms(11)
  have idx: "0 \<le> ?idx" "nat ?idx < length (buffer s)" by simp_all
  from assms(8,9) have "c_rem (current_row s + 1) (rows s) = Inr ((current_row s + 1) mod rows s)"
    using c_rem_range [of "current_row s + 1" "rows s"] by auto
  with assms(1-7) lt idx show ?thesis
    by (simp add: lcd_write32_def Let_def lcd_execute_command_def lcd_handle_data_write_def
        lcd_advance_cursor_def lcd_consts)
qed

theorem data_write_last_column_witness:
  "(0x1001 :: 64 word)
     - addr (lcd_4x2\<lparr>reg := \<lparr>rs = False, rw = False, e = True, data = 0x42\<rparr>,
                     multi_line_mode := True, current_row := 1, current_col := 3\<rparr>)
     = REGISTER_CONTROL \<and>
   current_col (lcd_4x2\<lparr>reg := \<lparr>rs = False, rw = False, e = True, data = 0x42\<rparr>,
                     multi_line_mode := True, current_row := 1, current_col := 3\<rparr>)
     = cols lcd_4x2 - 1 \<and>
   (\<exists>s'. lcd_write32 (lcd_4x2\<lparr>reg := \<lparr>rs = False, rw = False, e = True, data = 0x42\<rparr>,
                     multi_line_mode := True, current_row := 1, current_col := 3\<rparr>) 0x1001 1
            = Inr (True, s') \<and>
         current_col s' = 0 \<and> current_row s' = 0 \<and>
         buffer s' = [0, 0, 0, 0, 0, 0, 0, 0x42])"
proof -
  let ?s = "lcd_4x2\<lparr>reg := \<lparr>rs = False, rw = False, e = True, data = 0x42\<rparr>,
                     multi_line_mode := True, current_row := 1, current_col := 3\<rparr>"
  have h1: "(0x1001 :: 64 word) - addr ?s = REGISTER_CONTROL"
    by (simp add: lcd_4x2_def REGISTER_CONTROL_def)
  have h2: "e (reg ?s)" and h3: "\<not> bit (1 :: 32 word) 2" and h4: "\<not> bit (1 :: 32 word) 1"
    and h5: "bit (1 :: 32 word) 0" and h6: "increment_mode ?s"
    and h7: "current_col ?s = cols ?s - 1" and h8: "0 \<le> current_row ?s"
    and h9: "current_row ?s < rows ?s" and h10: "0 \<le> current_col ?s"
    and h11: "length (buffer ?s) = nat (rows ?s * cols ?s)"
    by (simp_all add: lcd_4x2_def)
  have upd: "(buffer ?s)[nat (current_row ?s * cols ?s + current_col ?s) := data (reg ?s)]
               = [0, 0, 0, 0, 0, 0, 0, 0x42]"
    by code_simp
  have row: "(if multi_line_mode ?s then (current_row ?s + 1) mod rows ?s else current_row ?s) = 0"
    by (simp add: lcd_4x2_def)
  from data_write_last_column [OF h1 h2 h3 h4 h5 h6 h7 h8 h9 h10 h11] h1 h7
  show ?thesis unfolding upd row by (simp add: lcd_4x2_def)
qed

end
